theory Spec2Isabelle
  imports Main "HOL-Library.Word" "HOL-Library.AList"
begin

section \<open>Data model\<close>

text \<open>
  Bytes are \<^typ>\<open>char\<close> (eight bits); a file and a C string are \<^typ>\<open>string\<close>, and the
  byte \<open>CHR 0x00\<close> ends a C string.  A \<open>RawCell*\<close> is an address: the index of the cell
  in the list of all cells allocated so far (\<open>allocate_clear\<close> appends a cell, nothing in
  \<open>rawcell.cpp\<close> frees one).

  A dependency slot of the source is an \<open>Array<RawCell*>\<close> item that holds either a
  \<open>char*\<close> cast to \<open>RawCell*\<close> (a name, between \<open>SNAME\<close> and \<open>ENDLIB\<close>) or a real
  \<open>RawCell*\<close>.  The model tags the pointer with what it points to: a live name string, a
  cell, or a name string that \<open>free_allocation\<close> has released.  Reading a slot at the
  wrong type and releasing a string twice are undefined behaviour of the source and a
  \<open>fault\<close> of the model.
\<close>

type_synonym addr = nat

datatype slot = Name string | Ref addr | Freed

datatype fault = UndefinedBehaviour

text \<open>The error codes \<open>rawcell.cpp\<close> stores through \<open>error_code\<close>.\<close>

datatype ErrorCode = NoError | InputFileOpenError | InputFileError | MissingReference | InvalidFile

text \<open>
  \<open>struct RawCell\<close>: the fields \<open>rawcell.cpp\<close> uses (\<open>owner\<close> is only printed).  The
  field \<open>size\<close> is \<open>size_rc\<close> here.  Offsets and sizes are \<open>uint64_t\<close> values bounded by
  the length of the file, so they are natural numbers.
\<close>

record RawCell =
  name :: "string option"
  source :: "addr option"
  offset :: nat
  size_rc :: nat
  data :: "string option"
  dependencies :: "slot list"
  filename :: string

text \<open>
  \<open>struct RawSource\<close>: the open stream (its contents; the field \<open>file\<close> is \<open>file_s\<close> here)
  and the 32-bit use count.  A \<open>RawSource*\<close> is an index into the list of sources; \<open>None\<close>
  there is a source that holds no open stream (\<open>fopen\<close> failed, or it was closed and freed).
\<close>

record RawSource =
  file_s :: string
  uses :: "32 word"

record store =
  cells :: "RawCell list"
  sources :: "RawSource option list"

text \<open>
  Modelled from the spec: the \<open>Map<RawCell*>\<close> of \<open>map.h\<close>, the spec's Name-Keyed Map
  (``an associative container from string keys to entity references'', keys unique).  It
  is an association list with distinct keys; \<open>get\<close> of an absent key is \<open>NULL\<close>
  (\<open>None\<close>), \<open>next\<close> enumerates the list, \<open>count\<close> is its length.
\<close>

type_synonym rawcell_map = "(string \<times> addr) list"

definition Map_get :: "rawcell_map \<Rightarrow> string \<Rightarrow> addr option" where
  "Map_get m k = map_of m k"

definition Map_set :: "rawcell_map \<Rightarrow> string \<Rightarrow> addr \<Rightarrow> rawcell_map" where
  "Map_set m k v = AList.update k v m"

definition Map_count :: "rawcell_map \<Rightarrow> nat" where
  "Map_count m = length m"

text \<open>
  The diagnostic sink is the global \<open>FILE* error_logger\<close>; the model passes whether it is
  non-null and collects the lines written to it.  \<open>error_code\<close> is a pointer that may be
  null: \<open>None\<close> is the null pointer, \<open>Some e\<close> a pointer to a variable that holds \<open>e\<close>.
\<close>

definition emit :: "bool \<Rightarrow> string \<Rightarrow> string list" where
  "emit error_logger line = (if error_logger then [line] else [])"

definition set_error :: "ErrorCode option \<Rightarrow> ErrorCode \<Rightarrow> ErrorCode option" where
  "set_error error_code e = (case error_code of None \<Rightarrow> None | Some _ \<Rightarrow> Some e)"

section \<open>\<open>RawCell::get_dependencies\<close>\<close>

text \<open>
  \<open>deref cs item\<close> is what the loop body reads through \<open>rawcell = *r_item++\<close>: the
  address, \<open>rawcell->name\<close> and \<open>rawcell->dependencies\<close>.  It is undefined (\<open>None\<close>) for a
  slot that does not hold a cell, for an address outside the heap and for a cell whose
  name is \<open>NULL\<close>.
\<close>

definition deref :: "RawCell list \<Rightarrow> slot \<Rightarrow> (addr \<times> string \<times> slot list) option" where
  "deref cs item =
    (case item of
       Ref a \<Rightarrow>
        if a < length cs
        then (case name (cs ! a) of
                None \<Rightarrow> None
              | Some nm \<Rightarrow> Some (a, nm, dependencies (cs ! a)))
        else None
     | _ \<Rightarrow> None)"

text \<open>
  The loop of \<open>get_dependencies\<close> over the items still to visit.  The recursive call
  comes before \<open>result.set\<close>, as in the source.  The recursion need not end, so the
  function is partial: \<open>None\<close> is ``never returns''.
\<close>

partial_function (option) get_dependencies_items ::
  "RawCell list \<Rightarrow> bool \<Rightarrow> slot list \<Rightarrow> rawcell_map \<Rightarrow> (fault + rawcell_map) option" where
  "get_dependencies_items cs recursive items result =
    (case items of
       [] \<Rightarrow> Some (Inr result)
     | r_item # rest \<Rightarrow>
        (case deref cs r_item of
           None \<Rightarrow> Some (Inl UndefinedBehaviour)
         | Some (rawcell, nm, deps) \<Rightarrow>
            Option.bind
              (if recursive \<and> Map_get result nm \<noteq> Some rawcell
               then get_dependencies_items cs True deps result
               else Some (Inr result))
              (\<lambda>r. case r of
                     Inl e \<Rightarrow> Some (Inl e)
                   | Inr result' \<Rightarrow>
                       get_dependencies_items cs recursive rest (Map_set result' nm rawcell))))"

declare get_dependencies_items.simps [code]

definition get_dependencies ::
  "RawCell list \<Rightarrow> bool \<Rightarrow> addr \<Rightarrow> rawcell_map \<Rightarrow> (fault + rawcell_map) option" where
  "get_dependencies cs recursive this result =
    (if this < length cs
     then get_dependencies_items cs recursive (dependencies (cs ! this)) result
     else Some (Inl UndefinedBehaviour))"

text \<open>The (name, address) pairs \<open>result.set\<close> receives from a dependency list.\<close>

definition pairs_of :: "RawCell list \<Rightarrow> slot list \<Rightarrow> (string \<times> addr) list" where
  "pairs_of cs items = map (\<lambda>(a, nm, deps). (nm, a)) (List.map_filter (deref cs) items)"

section \<open>\<open>RawCell::clear\<close> and \<open>RawCell::to_gds\<close>\<close>

text \<open>
  \<open>release\<close> is the block \<open>source->uses--; if (source->uses == 0) { fclose(source->file);
  free_allocation(source); }\<close> that \<open>clear\<close> and \<open>to_gds\<close> share; \<open>acquire\<close> is
  \<open>source->uses++\<close>.  Both touch memory that must still be allocated.
\<close>

definition release :: "store \<Rightarrow> addr \<Rightarrow> fault + store" where
  "release st s =
    (if s < length (sources st)
     then (case sources st ! s of
             None \<Rightarrow> Inl UndefinedBehaviour
           | Some src \<Rightarrow>
               Inr (st\<lparr>sources := (sources st)
                      [s := if uses src - 1 = 0 then None else Some (src\<lparr>uses := uses src - 1\<rparr>)]\<rparr>))
     else Inl UndefinedBehaviour)"

definition acquire :: "store \<Rightarrow> addr \<Rightarrow> fault + store" where
  "acquire st s =
    (if s < length (sources st)
     then (case sources st ! s of
             None \<Rightarrow> Inl UndefinedBehaviour
           | Some src \<Rightarrow> Inr (st\<lparr>sources := (sources st)[s := Some (src\<lparr>uses := uses src + 1\<rparr>)]\<rparr>))
     else Inl UndefinedBehaviour)"

definition close_source :: "store \<Rightarrow> addr \<Rightarrow> store" where
  "close_source st s = st\<lparr>sources := (sources st)[s := None]\<rparr>"

definition update_cell :: "store \<Rightarrow> addr \<Rightarrow> (RawCell \<Rightarrow> RawCell) \<Rightarrow> store" where
  "update_cell st a f = st\<lparr>cells := (cells st)[a := f (cells st ! a)]\<rparr>"

definition clear :: "store \<Rightarrow> addr \<Rightarrow> fault + store" where
  "clear st this =
    (let c = cells st ! this in
     case source c of
       Some s \<Rightarrow>
         (case release st s of
            Inl e \<Rightarrow> Inl e
          | Inr st' \<Rightarrow>
              Inr (st'\<lparr>cells := (cells st')
                     [this := c\<lparr>name := None, source := None, offset := 0, size_rc := 0,
                                dependencies := []\<rparr>]\<rparr>))
     | None \<Rightarrow>
         Inr (st\<lparr>cells := (cells st)
                [this := c\<lparr>name := None, data := None, size_rc := 0, dependencies := []\<rparr>]\<rparr>))"

text \<open>
  Modelled from the spec: \<open>RawSource::offset_read\<close> of \<open>rawcell.h\<close>, the spec's
  \<open>positionedRead(buffer, length, offset)\<close>: an absolute-offset read that returns the bytes
  the stream holds there, at most \<open>count\<close> of them.
\<close>

definition offset_read :: "RawSource \<Rightarrow> nat \<Rightarrow> nat \<Rightarrow> string" where
  "offset_read src count off = take count (drop off (file_s src))"

text \<open>
  \<open>to_gds\<close> returns the store, the destination stream after \<open>fwrite\<close> and the error
  code, paired with the lines written to the sink.
\<close>

definition to_gds ::
  "bool \<Rightarrow> store \<Rightarrow> addr \<Rightarrow> string \<Rightarrow> fault + (store \<times> string \<times> ErrorCode) \<times> string list" where
  "to_gds error_logger st this out =
    (let c = cells st ! this in
     case source c of
       Some s \<Rightarrow>
         (if s < length (sources st)
          then (case sources st ! s of
                  None \<Rightarrow> Inl UndefinedBehaviour
                | Some src \<Rightarrow>
                    let off = offset c;
                        bytes = offset_read src (size_rc c) off;
                        failed = (int (length bytes) < 0 \<or> length bytes \<noteq> size_rc c);
                        c1 = c\<lparr>data := Some bytes, size_rc := (if failed then 0 else size_rc c)\<rparr>
                    in (case release st s of
                          Inl e \<Rightarrow> Inl e
                        | Inr st' \<Rightarrow>
                            Inr ((st'\<lparr>cells := (cells st')[this := c1\<lparr>source := None\<rparr>]\<rparr>,
                                  out @ take (size_rc c1) bytes,
                                  if failed then InputFileError else NoError),
                                 if failed
                                 then emit error_logger
                                        ''[GDSTK] Unable to read RawCell data form input file.''
                                 else [])))
          else Inl UndefinedBehaviour)
     | None \<Rightarrow>
         (case data c of
            None \<Rightarrow> if size_rc c = 0 then Inr ((st, out, NoError), []) else Inl UndefinedBehaviour
          | Some bytes \<Rightarrow>
              if size_rc c \<le> length bytes
              then Inr ((st, out @ take (size_rc c) bytes, NoError), [])
              else Inl UndefinedBehaviour))"

section \<open>Reading records\<close>

text \<open>
  Modelled from the spec: \<open>gdsii_read_record\<close> of \<open>gdsii.cpp\<close>, the framing of the
  spec's Record Stream Reader (sections 4.1 and 6): a record is a 2-byte big-endian length
  that counts the 4-byte header, a record-type byte, an element-type byte and
  \<open>length - 4\<close> bytes of payload; reading fails when fewer bytes are left than the length
  declares (or than a header needs, or when the length cannot hold the header).  The
  argument is the rest of the stream; the result is the record as it now stands at the
  start of \<open>buffer\<close> (its length is \<open>record_length\<close>) and the stream after it.  The
  byte-order normalisation of section 4.1 is the caller's own code in \<open>get_polygons\<close>.
\<close>

definition gdsii_read_record :: "string \<Rightarrow> ErrorCode + (string \<times> string)" where
  "gdsii_read_record input =
    (if length input < 4 then Inl InputFileError
     else
       let record_length = of_char (input ! 0) * 256 + of_char (input ! 1)
       in if record_length < 4 then Inl InvalidFile
          else if length input < record_length then Inl InputFileError
          else Inr (take record_length input, drop record_length input))"

text \<open>The C string that starts at a pointer: the bytes before the first \<open>NUL\<close>.\<close>

definition c_str :: "string \<Rightarrow> string" where
  "c_str s = takeWhile (\<lambda>c. c \<noteq> CHR 0x00) s"

section \<open>\<open>read_rawcells\<close>\<close>

text \<open>
  The name copied out of a \<open>STRNAME\<close> or \<open>SNAME\<close> record: \<open>data_length\<close> bytes of \<open>str\<close>
  (one less when the last is \<open>NUL\<close>) and a terminator, read back as a C string.  With an
  empty payload \<open>str[data_length - 1]\<close> is \<open>str[UINT32_MAX]\<close>, outside the buffer.
\<close>

definition copy_name :: "string \<Rightarrow> fault + string" where
  "copy_name buffer =
    (let str = drop 4 buffer;
         data_length = length buffer - 4
     in if data_length = 0 then Inl UndefinedBehaviour
        else Inr (c_str (take (if str ! (data_length - 1) = CHR 0x00
                               then data_length - 1 else data_length) str)))"

definition allocate_clear :: "RawCell" where
  "allocate_clear =
    \<lparr>name = None, source = None, offset = 0, size_rc = 0, data = None,
     dependencies = [], filename = []\<rparr>"

text \<open>
  \<open>allocate_clear\<close> hands out zeroed storage and the cast to \<open>RawCell*\<close> runs no
  constructor, so the \<open>std::string\<close> member \<open>filename\<close> of such a cell is not an object.
  Assigning to it, as the \<open>BGNSTR\<close> case does, is undefined.
\<close>

definition assign_unconstructed :: "string \<Rightarrow> fault + string" where
  "assign_unconstructed v = Inl UndefinedBehaviour"

text \<open>
  The \<open>switch (buffer[2])\<close> of the first pass, \<open>ENDLIB\<close> apart.  The state is the store,
  \<open>result\<close> and the cursor \<open>rawcell\<close>; \<open>ftell\<close> is the position after the record.
\<close>

definition read_rawcells_record ::
  "string \<Rightarrow> addr \<Rightarrow> nat \<Rightarrow> string \<Rightarrow> store \<times> rawcell_map \<times> addr option
    \<Rightarrow> fault + (store \<times> rawcell_map \<times> addr option)" where
  "read_rawcells_record fname src ftell buffer S =
    (case S of (st, result, rawcell) \<Rightarrow>
      let record_length = length buffer in
      if buffer ! 2 = CHR 0x05 then
        (case acquire st src of
           Inl e \<Rightarrow> Inl e
         | Inr st' \<Rightarrow>
             (case assign_unconstructed fname of
                Inl e \<Rightarrow> Inl e
              | Inr filename' \<Rightarrow>
                  Inr (st'\<lparr>cells := cells st' @
                           [allocate_clear\<lparr>source := Some src, offset := ftell - record_length,
                                            size_rc := record_length, filename := filename'\<rparr>]\<rparr>,
                       result, Some (length (cells st')))))
      else if buffer ! 2 = CHR 0x06 then
        (case rawcell of
           None \<Rightarrow> Inr S
         | Some a \<Rightarrow>
             (case copy_name buffer of
                Inl e \<Rightarrow> Inl e
              | Inr nm \<Rightarrow>
                  Inr (update_cell st a (\<lambda>c. c\<lparr>name := Some nm, size_rc := size_rc c + record_length\<rparr>),
                       Map_set result nm a, rawcell)))
      else if buffer ! 2 = CHR 0x07 then
        (case rawcell of
           None \<Rightarrow> Inr S
         | Some a \<Rightarrow>
             Inr (update_cell st a (\<lambda>c. c\<lparr>size_rc := size_rc c + record_length\<rparr>), result, None))
      else if buffer ! 2 = CHR 0x12 then
        (case rawcell of
           None \<Rightarrow> Inr S
         | Some a \<Rightarrow>
             (case copy_name buffer of
                Inl e \<Rightarrow> Inl e
              | Inr nm \<Rightarrow>
                  Inr (update_cell st a
                         (\<lambda>c. c\<lparr>dependencies := dependencies c @ [Name nm],
                                 size_rc := size_rc c + record_length\<rparr>),
                       result, rawcell)))
      else
        (case rawcell of
           None \<Rightarrow> Inr S
         | Some a \<Rightarrow>
             Inr (update_cell st a (\<lambda>c. c\<lparr>size_rc := size_rc c + record_length\<rparr>), result, rawcell)))"

text \<open>\<open>Array::remove_unordered\<close>: the last item takes the place of item \<open>i\<close>.\<close>

definition remove_unordered :: "nat \<Rightarrow> 'a list \<Rightarrow> 'a list" where
  "remove_unordered i xs = (butlast xs)[i := last xs]"

text \<open>
  The inner loop of the \<open>ENDLIB\<close> case over one cell's slots.  \<open>contains\<close> compares
  pointers, and only a slot that holds a cell can equal \<open>rawcell\<close>.
\<close>

function resolve_dependencies ::
  "bool \<Rightarrow> rawcell_map \<Rightarrow> nat \<Rightarrow> slot list \<Rightarrow> ErrorCode option \<Rightarrow> string list
    \<Rightarrow> fault + (slot list \<times> ErrorCode option) \<times> string list" where
  "resolve_dependencies error_logger result i deps error_code diag =
    (if i < length deps then
       (case deps ! i of
          Name nm \<Rightarrow>
            (case Map_get result nm of
               Some rawcell \<Rightarrow>
                 if Ref rawcell \<in> set deps
                 then resolve_dependencies error_logger result i (remove_unordered i deps)
                        error_code diag
                 else resolve_dependencies error_logger result (i + 1) (deps[i := Ref rawcell])
                        error_code diag
             | None \<Rightarrow>
                 resolve_dependencies error_logger result i (remove_unordered i deps)
                   (set_error error_code MissingReference)
                   (diag @ emit error_logger (''[GDSTK] Referenced cell '' @ nm @ '' not found.'')))
        | _ \<Rightarrow> Inl UndefinedBehaviour)
     else Inr ((deps, error_code), diag))"
  by pat_completeness auto
termination
  by (relation "measure (\<lambda>(lg, result, i, deps, ec, diag). length deps - i)")
    (auto simp: remove_unordered_def)

declare resolve_dependencies.simps [simp del]

text \<open>The outer loop of the \<open>ENDLIB\<close> case over the items of \<open>result\<close>.\<close>

fun resolve_items ::
  "bool \<Rightarrow> rawcell_map \<Rightarrow> (string \<times> addr) list \<Rightarrow> store \<Rightarrow> ErrorCode option \<Rightarrow> string list
    \<Rightarrow> fault + (store \<times> ErrorCode option) \<times> string list" where
  "resolve_items error_logger result [] st error_code diag = Inr ((st, error_code), diag)"
| "resolve_items error_logger result (item # items) st error_code diag =
    (case resolve_dependencies error_logger result 0 (dependencies (cells st ! snd item))
            error_code diag of
       Inl e \<Rightarrow> Inl e
     | Inr ((deps', error_code'), diag') \<Rightarrow>
         resolve_items error_logger result items
           (update_cell st (snd item) (\<lambda>c. c\<lparr>dependencies := deps'\<rparr>)) error_code' diag')"

definition read_rawcells_endlib ::
  "bool \<Rightarrow> addr \<Rightarrow> ErrorCode option \<Rightarrow> store \<times> rawcell_map \<times> addr option
    \<Rightarrow> fault + (store \<times> rawcell_map \<times> ErrorCode option) \<times> string list" where
  "read_rawcells_endlib error_logger src error_code S =
    (case S of (st, result, rawcell) \<Rightarrow>
      (case resolve_items error_logger result result st error_code [] of
         Inl e \<Rightarrow> Inl e
       | Inr ((st', error_code'), diag) \<Rightarrow>
           (case sources st' ! src of
              None \<Rightarrow> Inl UndefinedBehaviour
            | Some s \<Rightarrow>
                Inr ((if uses s = 0 then close_source st' src else st', result, error_code'),
                     diag))))"

text \<open>
  The teardown after the loop.  Its inner loop \<open>for (i = 0; i < dependencies->count;)\<close>
  releases the name in slot \<open>i\<close> and changes neither \<open>i\<close> nor the count.
\<close>

definition is_Name :: "slot \<Rightarrow> bool" where
  "is_Name s = (case s of Name _ \<Rightarrow> True | _ \<Rightarrow> False)"

lemma filter_update_less:
  "i < length xs \<Longrightarrow> P (xs ! i) \<Longrightarrow> \<not> P y \<Longrightarrow>
    length (filter P (xs[i := y])) < length (filter P xs)"
proof (induction xs arbitrary: i)
  case Nil
  then show ?case by simp
next
  case (Cons x xs)
  show ?case
  proof (cases i)
    case 0
    with Cons.prems show ?thesis by (simp add: le_imp_less_Suc)
  next
    case (Suc j)
    with Cons.prems Cons.IH [of j] show ?thesis by simp
  qed
qed

function free_names :: "nat \<Rightarrow> slot list \<Rightarrow> fault + unit" where
  "free_names i deps =
    (if i < length deps then
       (case deps ! i of
          Name nm \<Rightarrow> free_names i (deps[i := Freed])
        | _ \<Rightarrow> Inl UndefinedBehaviour)
     else Inr ())"
  by pat_completeness auto
termination
proof (relation "measure (\<lambda>(i, deps). length (filter is_Name deps))")
  show "wf (measure (\<lambda>(i, deps). length (filter is_Name deps)))" by simp
next
  fix i :: nat and deps :: "slot list" and nm
  assume "i < length deps" "deps ! i = Name nm"
  then have "length (filter is_Name (deps[i := Freed])) < length (filter is_Name deps)"
    by (intro filter_update_less) (simp_all add: is_Name_def)
  then show "((i, deps[i := Freed]), (i, deps)) \<in> measure (\<lambda>(i, deps). length (filter is_Name deps))"
    by simp
qed

declare free_names.simps [simp del]

fun teardown_items :: "(string \<times> addr) list \<Rightarrow> store \<Rightarrow> fault + store" where
  "teardown_items [] st = Inr st"
| "teardown_items (item # items) st =
    (case free_names 0 (dependencies (cells st ! snd item)) of
       Inl e \<Rightarrow> Inl e
     | Inr _ \<Rightarrow>
         (case clear st (snd item) of
            Inl e \<Rightarrow> Inl e
          | Inr st' \<Rightarrow> teardown_items items st'))"

definition read_rawcells_abort ::
  "bool \<Rightarrow> string \<Rightarrow> addr \<Rightarrow> ErrorCode option \<Rightarrow> store \<times> rawcell_map \<times> addr option
    \<Rightarrow> fault + (store \<times> rawcell_map \<times> ErrorCode option) \<times> string list" where
  "read_rawcells_abort error_logger fname src error_code S =
    (case S of (st, result, rawcell) \<Rightarrow>
      (case acquire st src of
         Inl e \<Rightarrow> Inl e
       | Inr st1 \<Rightarrow>
           (case teardown_items result st1 of
              Inl e \<Rightarrow> Inl e
            | Inr st2 \<Rightarrow>
                Inr ((close_source st2 src, [], set_error error_code InvalidFile),
                     emit error_logger (''[GDSTK] Invalid GDSII file '' @ fname @ ''.'')))))"

lemma gdsii_read_record_shorter:
  "gdsii_read_record input = Inr (buffer, rest) \<Longrightarrow> length rest < length input"
  by (auto simp: gdsii_read_record_def Let_def split: if_splits)

text \<open>
  The \<open>while (true)\<close> loop: \<open>input\<close> is the stream from the read position \<open>pos\<close> on.  A
  failed read breaks to the teardown, \<open>ENDLIB\<close> resolves and returns.
\<close>

function read_rawcells_loop ::
  "bool \<Rightarrow> string \<Rightarrow> addr \<Rightarrow> ErrorCode option \<Rightarrow> nat \<Rightarrow> store \<times> rawcell_map \<times> addr option
    \<Rightarrow> string \<Rightarrow> fault + (store \<times> rawcell_map \<times> ErrorCode option) \<times> string list" where
  "read_rawcells_loop error_logger fname src error_code pos S input =
    (case gdsii_read_record input of
       Inl err \<Rightarrow> read_rawcells_abort error_logger fname src (set_error error_code err) S
     | Inr (buffer, rest) \<Rightarrow>
         if buffer ! 2 = CHR 0x04 then read_rawcells_endlib error_logger src error_code S
         else
           (case read_rawcells_record fname src (pos + length buffer) buffer S of
              Inl e \<Rightarrow> Inl e
            | Inr S' \<Rightarrow>
                read_rawcells_loop error_logger fname src error_code (pos + length buffer) S' rest))"
  by pat_completeness auto
termination
  by (relation "measure (\<lambda>(lg, fname, src, ec, pos, S, input). length input)")
    (auto dest: gdsii_read_record_shorter)

declare read_rawcells_loop.simps [simp del]

text \<open>
  \<open>fs\<close> is the file system \<open>fopen\<close> sees.  The result is the store, the returned map and
  what \<open>error_code\<close> points to, paired with the lines written to the sink.
\<close>

definition read_rawcells ::
  "bool \<Rightarrow> (string \<Rightarrow> string option) \<Rightarrow> store \<Rightarrow> string \<Rightarrow> ErrorCode option
    \<Rightarrow> fault + (store \<times> rawcell_map \<times> ErrorCode option) \<times> string list" where
  "read_rawcells error_logger fs st fname error_code =
    (case fs fname of
       None \<Rightarrow>
         Inr ((st\<lparr>sources := sources st @ [None]\<rparr>, [], set_error error_code InputFileOpenError),
              emit error_logger ''[GDSTK] Unable to open input GDSII file.'')
     | Some bytes \<Rightarrow>
         read_rawcells_loop error_logger fname (length (sources st)) error_code 0
           (st\<lparr>sources := sources st @ [Some \<lparr>file_s = bytes, uses = 0\<rparr>]\<rparr>, [], None) bytes)"

section \<open>\<open>RawCell::get_polygons\<close>\<close>

text \<open>
  The arithmetic on \<open>double\<close> is a parameter: \<open>fp_one\<close> is the initial \<open>factor = 1\<close>,
  \<open>gdsii_real_to_double\<close> the conversion of \<open>gdsii.cpp\<close>, \<open>fp_div\<close> the division,
  \<open>fp_positive\<close> and \<open>fp_nonpositive\<close> the tests \<open>unit > 0\<close> and \<open>tolerance <= 0\<close>, and
  \<open>fp_scale factor v\<close> the value of \<open>int32_t x = factor * v\<close>.  What is proved below holds
  for every such arithmetic.
\<close>

record 'd fpu =
  fp_one :: 'd
  gdsii_real_to_double :: "64 word \<Rightarrow> 'd"
  fp_div :: "'d \<Rightarrow> 'd \<Rightarrow> 'd"
  fp_positive :: "'d \<Rightarrow> bool"
  fp_nonpositive :: "'d \<Rightarrow> bool"
  fp_scale :: "'d \<Rightarrow> int \<Rightarrow> int"

text \<open>
  \<open>buffer\<close> is a local array that is not initialised and is reused for every record, so
  after a short record it still holds the bytes of earlier, longer ones.  The model keeps
  the bytes written so far; a read beyond them is a read of indeterminate memory, a
  \<open>fault\<close>.

  \<open>big_endian_swap16/32/64\<close> (on a little-endian host) reverse the first \<open>data_length\<close>
  groups of 2, 4 or 8 payload bytes in place; \<open>data32[i]\<close> and \<open>data64[i]\<close> then read host
  words.  The element-type byte selects the width: 1 and 2 two bytes, 3 and 4 four, 5
  eight.
\<close>

fun swap_groups :: "nat \<Rightarrow> nat \<Rightarrow> 'a list \<Rightarrow> 'a list" where
  "swap_groups k 0 xs = xs"
| "swap_groups k (Suc n) xs = rev (take k xs) @ swap_groups k n (drop k xs)"

definition normalize_payload :: "string \<Rightarrow> nat \<Rightarrow> nat \<times> string" where
  "normalize_payload buffer record_length =
    (let k = (if buffer ! 3 = CHR 0x01 \<or> buffer ! 3 = CHR 0x02 then 2
              else if buffer ! 3 = CHR 0x03 \<or> buffer ! 3 = CHR 0x04 then 4
              else if buffer ! 3 = CHR 0x05 then 8
              else 1);
         data_length = (record_length - 4) div k
     in (data_length,
         if k = 1 then buffer else take 4 buffer @ swap_groups k data_length (drop 4 buffer)))"

definition host_word :: "string \<Rightarrow> nat" where
  "host_word bs = foldr (\<lambda>b n. of_char b + 256 * n) bs 0"

definition data32 :: "string \<Rightarrow> nat \<Rightarrow> fault + int" where
  "data32 buffer i =
    (if 4 + 4 * i + 4 \<le> length buffer
     then Inr (sint (word_of_nat (host_word (take 4 (drop (4 + 4 * i) buffer))) :: 32 word))
     else Inl UndefinedBehaviour)"

definition data64 :: "string \<Rightarrow> nat \<Rightarrow> fault + 64 word" where
  "data64 buffer i =
    (if 4 + 8 * i + 8 \<le> length buffer
     then Inr (word_of_nat (host_word (take 8 (drop (4 + 8 * i) buffer))))
     else Inl UndefinedBehaviour)"

text \<open>
  The key \<open>has_key(str)\<close> and \<open>get_slot(str)\<close> look up: the C string at \<open>buffer + 4\<close>,
  whatever record left it there.
\<close>

definition str_key :: "string \<Rightarrow> fault + string" where
  "str_key buffer =
    (if CHR 0x00 \<in> set (drop 4 buffer) then Inr (c_str (drop 4 buffer))
     else Inl UndefinedBehaviour)"

text \<open>
  \<open>strncmp(s1, s2, n) == 0\<close>: at most \<open>n\<close> characters are compared, and the comparison
  stops after a \<open>NUL\<close>.  A string that has ended reads as \<open>NUL\<close>.
\<close>

fun strncmp_eq :: "string \<Rightarrow> string \<Rightarrow> nat \<Rightarrow> bool" where
  "strncmp_eq s1 s2 0 = True"
| "strncmp_eq s1 s2 (Suc n) =
    (let c1 = (case s1 of [] \<Rightarrow> CHR 0x00 | c # _ \<Rightarrow> c);
         c2 = (case s2 of [] \<Rightarrow> CHR 0x00 | c # _ \<Rightarrow> c)
     in if c1 \<noteq> c2 then False
        else if c1 = CHR 0x00 then True
        else strncmp_eq (tl s1) (tl s2) n)"

text \<open>The loop \<open>for (i = 0; i < data_length; i += 4)\<close> of the \<open>XY\<close> case.\<close>

function xy_points ::
  "'d fpu \<Rightarrow> 'd \<Rightarrow> string \<Rightarrow> nat \<Rightarrow> nat \<Rightarrow> int \<Rightarrow> fault + (int \<times> int \<times> int) list" where
  "xy_points fp factor buffer data_length i start_id =
    (if i < data_length then
       (case data32 buffer i of
          Inl e \<Rightarrow> Inl e
        | Inr x \<Rightarrow>
            (case data32 buffer (i + 1) of
               Inl e \<Rightarrow> Inl e
             | Inr y \<Rightarrow>
                 (case xy_points fp factor buffer data_length (i + 4) start_id of
                    Inl e \<Rightarrow> Inl e
                  | Inr ps \<Rightarrow> Inr ((fp_scale fp factor x, fp_scale fp factor y, start_id) # ps))))
     else Inr [])"
  by pat_completeness auto
termination
  by (relation "measure (\<lambda>(fp, factor, buffer, data_length, i, start_id). data_length - i)") auto

declare xy_points.simps [simp del]

text \<open>
  The locals of one call are \<open>factor\<close>, \<open>tolerance\<close>, \<open>target_cell_found\<close>,
  \<open>found_polygon\<close> and \<open>buffer\<close>; what the call shares with its caller is \<open>start_id\<close>,
  what \<open>error_code\<close> points to and \<open>polygons\<close>.
\<close>

type_synonym 'd locals = "'d \<times> 'd \<times> bool \<times> bool \<times> string"

type_synonym outputs = "int \<times> ErrorCode option \<times> (int \<times> int \<times> int) list"

text \<open>
  The \<open>switch ((GdsiiRecord)(buffer[2]))\<close>, the cases \<open>ENDLIB\<close>, \<open>SREF\<close> and \<open>AREF\<close>
  apart: \<open>LIBNAME\<close> (2), \<open>UNITS\<close> (3), \<open>STRNAME\<close> (6), \<open>BOUNDARY\<close> (8) and \<open>BOX\<close> (45),
  \<open>XY\<close> (16), \<open>ENDEL\<close> (17); \<open>ENDSTR\<close> and every other record change nothing.  In the
  \<open>LIBNAME\<close> case \<open>str[data_length - 1]\<close> is outside the buffer when the payload is empty.
\<close>

definition get_polygons_record ::
  "'d fpu \<Rightarrow> string option \<Rightarrow> 'd \<Rightarrow> nat \<Rightarrow> 'd locals \<Rightarrow> outputs \<Rightarrow> fault + ('d locals \<times> outputs)" where
  "get_polygons_record fp this_name unit data_length L G =
    (case L of (factor, tolerance, target_cell_found, found_polygon, buffer) \<Rightarrow>
     case G of (start_id, error_code, polygons) \<Rightarrow>
      if buffer ! 2 = CHR 0x02 then
        (if data_length = 0 then Inl UndefinedBehaviour else Inr (L, G))
      else if buffer ! 2 = CHR 0x03 then
        (case data64 buffer 0 of
           Inl e \<Rightarrow> Inl e
         | Inr w0 \<Rightarrow>
             (case data64 buffer 1 of
                Inl e \<Rightarrow> Inl e
              | Inr w1 \<Rightarrow>
                  let db_in_user = gdsii_real_to_double fp w0;
                      db_in_meters = gdsii_real_to_double fp w1;
                      factor' = (if fp_positive fp unit then fp_div fp db_in_meters unit
                                 else db_in_user);
                      tolerance' = (if fp_nonpositive fp tolerance
                                    then fp_div fp db_in_meters factor' else tolerance)
                  in Inr ((factor', tolerance', target_cell_found, found_polygon, buffer), G)))
      else if buffer ! 2 = CHR 0x06 then
        (case this_name of
           None \<Rightarrow> Inl UndefinedBehaviour
         | Some nm \<Rightarrow>
             Inr ((factor, tolerance,
                   (if strncmp_eq (drop 4 buffer) nm data_length then True else target_cell_found),
                   found_polygon, buffer), G))
      else if buffer ! 2 = CHR 0x08 \<or> buffer ! 2 = CHR 0x2D then
        Inr ((factor, tolerance, target_cell_found,
              (if target_cell_found then True else found_polygon), buffer), G)
      else if buffer ! 2 = CHR 0x10 then
        (if found_polygon then
           (case xy_points fp factor buffer data_length 0 start_id of
              Inl e \<Rightarrow> Inl e
            | Inr ps \<Rightarrow> Inr (L, (start_id + 1, error_code, polygons @ ps)))
         else Inr (L, G))
      else if buffer ! 2 = CHR 0x11 then
        Inr ((factor, tolerance, target_cell_found,
              (if target_cell_found then False else found_polygon), buffer), G)
      else Inr (L, G))"

text \<open>
  \<open>get_polygons\<close> opens the file of the cell and scans it; \<open>get_polygons_loop\<close> is the
  \<open>while (true)\<close> loop on the rest of the stream.  In the \<open>SREF\<close>/\<open>AREF\<close> case the call
  \<open>ref->get_polygons(start_id, -1, ...)\<close> scans the file of \<open>ref\<close> from its start.  The
  nesting of these calls need not end; \<open>fuel\<close> bounds its depth, and \<open>None\<close> is a call
  that needs more (or that waits for a \<open>get_dependencies\<close> that never returns).  \<open>diag\<close>
  collects the lines written to the sink.  The \<open>RawSource\<close> the function allocates is
  never stored or released and is left out.
\<close>

function get_polygons ::
    "nat \<Rightarrow> 'd fpu \<Rightarrow> bool \<Rightarrow> (string \<Rightarrow> string option) \<Rightarrow> RawCell list \<Rightarrow> addr
      \<Rightarrow> int \<Rightarrow> 'd \<Rightarrow> 'd \<Rightarrow> outputs \<Rightarrow> string list
      \<Rightarrow> (fault + outputs \<times> string list) option"
  and get_polygons_loop ::
    "nat \<Rightarrow> 'd fpu \<Rightarrow> bool \<Rightarrow> (string \<Rightarrow> string option) \<Rightarrow> RawCell list \<Rightarrow> addr
      \<Rightarrow> int \<Rightarrow> 'd \<Rightarrow> 'd locals \<Rightarrow> outputs \<Rightarrow> string list \<Rightarrow> string
      \<Rightarrow> (fault + outputs \<times> string list) option"
  where
  "get_polygons fuel fp error_logger fs cs this depth unit tolerance G diag =
    (if this < length cs then
       (case fs (filename (cs ! this)) of
          None \<Rightarrow>
            (case G of (start_id, error_code, polygons) \<Rightarrow>
              Some (Inr ((start_id, set_error error_code InputFileOpenError, polygons),
                         diag @ emit error_logger ''[GDSTK] Unable to open input GDSII file.'')))
        | Some bytes \<Rightarrow>
            get_polygons_loop fuel fp error_logger fs cs this depth unit
              (fp_one fp, tolerance, False, False, []) G diag bytes)
     else Some (Inl UndefinedBehaviour))"
| "get_polygons_loop fuel fp error_logger fs cs this depth unit L G diag input =
    (case gdsii_read_record input of
       Inl err \<Rightarrow>
         (case G of (start_id, error_code, polygons) \<Rightarrow>
           Some (Inr ((start_id, set_error error_code err, polygons), diag)))
     | Inr (record, rest) \<Rightarrow>
         (case L of (factor, tolerance, target_cell_found, found_polygon, old_buffer) \<Rightarrow>
           (case normalize_payload (record @ drop (length record) old_buffer) (length record) of
              (data_length, buffer) \<Rightarrow>
               if buffer ! 2 = CHR 0x04 then Some (Inr (G, diag))
               else if buffer ! 2 = CHR 0x0A \<or> buffer ! 2 = CHR 0x0B then
                 (if target_cell_found \<and> depth \<noteq> 0 then
                    (case get_dependencies cs True this [] of
                       None \<Rightarrow> None
                     | Some (Inl e) \<Rightarrow> Some (Inl e)
                     | Some (Inr dependency_map) \<Rightarrow>
                         (case str_key buffer of
                            Inl e \<Rightarrow> Some (Inl e)
                          | Inr key \<Rightarrow>
                              (case Map_get dependency_map key of
                                 None \<Rightarrow>
                                   get_polygons_loop fuel fp error_logger fs cs this depth unit
                                     (factor, tolerance, target_cell_found, found_polygon, buffer)
                                     G diag rest
                               | Some ref \<Rightarrow>
                                   (case fuel of
                                      0 \<Rightarrow> None
                                    | Suc n \<Rightarrow>
                                        (case get_polygons n fp error_logger fs cs ref (- 1) unit
                                                tolerance G diag of
                                           None \<Rightarrow> None
                                         | Some (Inl e) \<Rightarrow> Some (Inl e)
                                         | Some (Inr (G', diag')) \<Rightarrow>
                                             get_polygons_loop fuel fp error_logger fs cs this
                                               depth unit
                                               (factor, tolerance, target_cell_found,
                                                found_polygon, buffer)
                                               G' diag' rest)))))
                  else
                    get_polygons_loop fuel fp error_logger fs cs this depth unit
                      (factor, tolerance, target_cell_found, found_polygon, buffer) G diag rest)
               else
                 (case get_polygons_record fp (name (cs ! this)) unit data_length
                         (factor, tolerance, target_cell_found, found_polygon, buffer) G of
                    Inl e \<Rightarrow> Some (Inl e)
                  | Inr (L', G') \<Rightarrow>
                      get_polygons_loop fuel fp error_logger fs cs this depth unit L' G' diag
                        rest))))"
  by pat_completeness auto
termination
  by (relation "inv_image (less_than <*lex*> less_than <*lex*> less_than)
        (\<lambda>x. case x of
           Inl (fuel, fp, lg, fs, cs, this, depth, unit, tolerance, G, diag) \<Rightarrow>
             (fuel, 1::nat, 0::nat)
         | Inr (fuel, fp, lg, fs, cs, this, depth, unit, L, G, diag, input) \<Rightarrow>
             (fuel, 0, length input))")
    (auto dest: gdsii_read_record_shorter)

declare get_polygons.simps [simp del] get_polygons_loop.simps [simp del]

section \<open>Concrete inputs\<close>

text \<open>
  Records as a GDSII writer frames them, and cells with the name, file and dependencies
  that a load is meant to give them.
\<close>

definition gds_record :: "char \<Rightarrow> char \<Rightarrow> string \<Rightarrow> string" where
  "gds_record tag dtype payload =
    [char_of ((length payload + 4) div 256), char_of ((length payload + 4) mod 256), tag, dtype]
    @ payload"

definition be32 :: "nat \<Rightarrow> string" where
  "be32 n = [char_of (n div 16777216), char_of (n div 65536), char_of (n div 256), char_of n]"

definition BGNSTR :: string where
  "BGNSTR = gds_record (CHR 0x05) (CHR 0x02) (replicate 24 (CHR 0x00))"

definition STRNAME :: "string \<Rightarrow> string" where
  "STRNAME nm = gds_record (CHR 0x06) (CHR 0x06) nm"

definition ENDSTR :: string where
  "ENDSTR = gds_record (CHR 0x07) (CHR 0x00) []"

definition BOUNDARY :: string where
  "BOUNDARY = gds_record (CHR 0x08) (CHR 0x00) []"

definition XY :: "nat list \<Rightarrow> string" where
  "XY ws = gds_record (CHR 0x10) (CHR 0x03) (concat (map be32 ws))"

definition ENDEL :: string where
  "ENDEL = gds_record (CHR 0x11) (CHR 0x00) []"

definition SREF :: string where
  "SREF = gds_record (CHR 0x0A) (CHR 0x00) []"

definition SNAME :: "string \<Rightarrow> string" where
  "SNAME nm = gds_record (CHR 0x12) (CHR 0x06) nm"

definition ENDLIB :: string where
  "ENDLIB = gds_record (CHR 0x04) (CHR 0x00) []"

definition on_disk :: "string \<Rightarrow> string \<Rightarrow> string option" where
  "on_disk bytes fname = (if fname = ''f.gds'' then Some bytes else None)"

definition empty_store :: store where
  "empty_store = \<lparr>cells = [], sources = []\<rparr>"

definition cell_named :: "string \<Rightarrow> slot list \<Rightarrow> RawCell" where
  "cell_named nm deps =
    \<lparr>name = Some nm, source = None, offset = 0, size_rc = 0, data = None,
     dependencies = deps, filename = []\<rparr>"

definition cell_in :: "string \<Rightarrow> string \<Rightarrow> slot list \<Rightarrow> RawCell" where
  "cell_in fname nm deps = (cell_named nm deps)\<lparr>filename := fname\<rparr>"

text \<open>Two cells that depend on each other; a cell that also depends on itself.\<close>

definition cycle_cells :: "RawCell list" where
  "cycle_cells = [cell_named ''A'' [Ref 1], cell_named ''B'' [Ref 0]]"

definition loop_cells :: "RawCell list" where
  "loop_cells = [cell_named ''A'' [Ref 0, Ref 1], cell_named ''B'' [Ref 0]]"

text \<open>A file that ends inside structure \<open>A\<close>, after its reference to \<open>B\<close>.\<close>

definition truncated_file :: string where
  "truncated_file =
    BGNSTR @ STRNAME (''A'' @ [CHR 0x00]) @ SREF @ SNAME (''B'' @ [CHR 0x00])"

text \<open>Structure \<open>A\<close> with one square, then an unrelated structure \<open>B\<close> with another.\<close>

definition two_cells_file :: string where
  "two_cells_file =
    BGNSTR @ STRNAME (''A'' @ [CHR 0x00])
      @ BOUNDARY @ XY [0, 0, 10, 0, 10, 10, 0, 10, 0, 0] @ ENDEL @ ENDSTR
    @ BGNSTR @ STRNAME (''B'' @ [CHR 0x00])
      @ BOUNDARY @ XY [20, 20, 30, 20, 30, 30, 20, 30, 20, 20] @ ENDEL @ ENDSTR
    @ ENDLIB"

text \<open>Structure \<open>A\<close> alone: one boundary of five coordinate pairs.\<close>

definition square_file :: string where
  "square_file =
    BGNSTR @ STRNAME (''A'' @ [CHR 0x00])
      @ BOUNDARY @ XY [0, 0, 10, 0, 10, 10, 0, 10, 0, 0] @ ENDEL @ ENDSTR
    @ ENDLIB"

text \<open>Structure \<open>B\<close> with a square, then \<open>TOP\<close>, which places \<open>B\<close> at the origin.\<close>

definition nested_file :: string where
  "nested_file =
    BGNSTR @ STRNAME (''B'' @ [CHR 0x00])
      @ BOUNDARY @ XY [20, 20, 30, 20, 30, 30, 20, 30, 20, 20] @ ENDEL @ ENDSTR
    @ BGNSTR @ STRNAME (''TOP'' @ [CHR 0x00])
      @ SREF @ SNAME (''B'' @ [CHR 0x00]) @ XY [0, 0] @ ENDEL @ ENDSTR
    @ ENDLIB"

text \<open>Structure \<open>TOP\<close> alone, which places a structure \<open>C\<close> that the file does not hold.\<close>

definition dangling_file :: string where
  "dangling_file =
    BGNSTR @ STRNAME (''TOP'' @ [CHR 0x00])
      @ SREF @ SNAME (''C'' @ [CHR 0x00]) @ XY [0, 0] @ ENDEL @ ENDSTR
    @ ENDLIB"

definition nested_cells :: "RawCell list" where
  "nested_cells = [cell_in ''f.gds'' ''B'' [], cell_in ''f.gds'' ''TOP'' [Ref 0]]"

text \<open>An unmaterialized cell: bytes 2 to 4 of a seven-byte file.\<close>

definition lazy_store :: store where
  "lazy_store =
    \<lparr>cells = [allocate_clear\<lparr>name := Some ''A'', source := Some 0, offset := 2, size_rc := 3\<rparr>],
     sources = [Some \<lparr>file_s = ''abcdefg'', uses = 1\<rparr>]\<rparr>"

section \<open>Results without the diagnostics\<close>

text \<open>
  Every operation that consults \<open>error_logger\<close> returns its result paired with the lines it
  wrote; \<open>unlogged\<close> and \<open>silent\<close> keep the result and drop the lines.
\<close>

definition unlogged :: "fault + 'a \<times> string list \<Rightarrow> fault + 'a" where
  "unlogged r = (case r of Inl e \<Rightarrow> Inl e | Inr (x, diag) \<Rightarrow> Inr x)"

definition silent :: "(fault + 'a \<times> string list) option \<Rightarrow> (fault + 'a) option" where
  "silent r = map_option unlogged r"

section \<open>Evaluation\<close>

lemma swap_groups_numeral:
  "swap_groups k (numeral v) xs = rev (take k xs) @ swap_groups k (pred_numeral v) (drop k xs)"
  by (simp add: numeral_eq_Suc)

lemmas gds_bytes =
  BGNSTR_def STRNAME_def ENDSTR_def BOUNDARY_def XY_def ENDEL_def SREF_def SNAME_def ENDLIB_def
  gds_record_def be32_def

lemmas scan_defs =
  gdsii_read_record_def normalize_payload_def get_polygons_record_def data32_def host_word_def
  swap_groups_numeral str_key_def c_str_def set_error_def
  get_polygons.simps get_polygons_loop.simps xy_points.simps

lemmas load_defs =
  read_rawcells_def read_rawcells_loop.simps gdsii_read_record_def read_rawcells_record_def
  read_rawcells_endlib_def read_rawcells_abort_def resolve_dependencies.simps free_names.simps
  acquire_def release_def clear_def close_source_def copy_name_def c_str_def update_cell_def
  allocate_clear_def assign_unconstructed_def Map_set_def Map_get_def set_error_def remove_unordered_def emit_def

section \<open>Facts about the map\<close>

lemma Map_get_set: "Map_get (Map_set m k v) k' = (if k' = k then Some v else Map_get m k')"
  by (simp add: Map_get_def Map_set_def update_conv')

lemma Map_get_Nil: "Map_get [] k = None"
  by (simp add: Map_get_def)

section \<open>Dependencies: a cycle never returns\<close>

lemma get_dependencies_items_cycle:
  assumes a: "deref cs (Ref a) = Some (a, na, Ref b # ra)"
    and b: "deref cs (Ref b) = Some (b, nb, Ref a # rb)"
    and fresh: "Map_get result na \<noteq> Some a" "Map_get result nb \<noteq> Some b"
  shows "get_dependencies_items cs True (Ref b # ra) result = None"
proof -
  have never: "\<not> (cs' = cs \<and> rc \<and> res = result \<and> (items = Ref b # ra \<or> items = Ref a # rb))"
    if "get_dependencies_items cs' rc items res = Some y" for cs' rc items res y
  proof (rule get_dependencies_items.raw_induct
      [where P = "\<lambda>cs' rc items res y.
         \<not> (cs' = cs \<and> rc \<and> res = result \<and> (items = Ref b # ra \<or> items = Ref a # rb))",
       OF _ that])
    fix f :: "RawCell list \<Rightarrow> bool \<Rightarrow> slot list \<Rightarrow> rawcell_map \<Rightarrow> (fault + rawcell_map) option"
      and cs' rc items res y
    assume IH: "\<And>cs' rc items res y. f cs' rc items res = Some y \<Longrightarrow>
        \<not> (cs' = cs \<and> rc \<and> res = result \<and> (items = Ref b # ra \<or> items = Ref a # rb))"
    assume body: "(case items of
       [] \<Rightarrow> Some (Inr res)
     | r_item # rest \<Rightarrow>
        (case deref cs' r_item of
           None \<Rightarrow> Some (Inl UndefinedBehaviour)
         | Some (rawcell, nm, deps) \<Rightarrow>
            Option.bind
              (if rc \<and> Map_get res nm \<noteq> Some rawcell
               then f cs' True deps res
               else Some (Inr res))
              (\<lambda>r. case r of
                     Inl e \<Rightarrow> Some (Inl e)
                   | Inr result' \<Rightarrow>
                       f cs' rc rest (Map_set result' nm rawcell)))) = Some y"
    show "\<not> (cs' = cs \<and> rc \<and> res = result \<and> (items = Ref b # ra \<or> items = Ref a # rb))"
    proof
      assume inv: "cs' = cs \<and> rc \<and> res = result \<and> (items = Ref b # ra \<or> items = Ref a # rb)"
      then consider "items = Ref b # ra" | "items = Ref a # rb" by blast
      then show False
      proof cases
        case 1
        with inv body b fresh
        obtain r where "f cs True (Ref a # rb) result = Some r"
          by (auto simp: bind_eq_Some_conv)
        with IH show False by blast
      next
        case 2
        with inv body a fresh
        obtain r where "f cs True (Ref b # ra) result = Some r"
          by (auto simp: bind_eq_Some_conv)
        with IH show False by blast
      qed
    qed
  qed
  show ?thesis
  proof (cases "get_dependencies_items cs True (Ref b # ra) result")
    case None
    then show ?thesis .
  next
    case (Some y)
    from never [OF this] show ?thesis by simp
  qed
qed

text \<open>
  C1.  The claim: for a mutual cycle (A's list holds B, B's list holds A, both resolved)
  \<open>get_dependencies\<close> on A with \<open>recursive = true\<close> and an empty accumulator terminates with
  exactly A and B in the accumulator.  The code does not: A recurses into B before anything
  is stored, B recurses into A with the accumulator still empty, and so on.  On the
  two-cell cycle the call never returns.
\<close>

theorem get_dependencies_mutual_cycle_never_returns:
  "get_dependencies cycle_cells True 0 [] = None"
proof -
  have "get_dependencies_items cycle_cells True (Ref 1 # []) [] = None"
    by (rule get_dependencies_items_cycle [where a = 0 and na = "''A''" and nb = "''B''" and rb = "[]"])
      (simp_all add: deref_def cycle_cells_def cell_named_def Map_get_Nil)
  then show ?thesis
    by (simp add: get_dependencies_def cycle_cells_def cell_named_def)
qed

section \<open>Dependencies: the non-recursive query\<close>

lemma get_dependencies_items_flat:
  assumes "\<forall>s\<in>set items. deref cs s \<noteq> None"
  shows "\<exists>result'. get_dependencies_items cs False items result = Some (Inr result')
    \<and> Map_get result' = Map_get result ++ map_of (rev (pairs_of cs items))"
  using assms
proof (induction items arbitrary: result)
  case Nil
  show ?case
    by (subst get_dependencies_items.simps) (simp add: pairs_of_def)
next
  case (Cons s items)
  from Cons.prems obtain a nm deps where s: "deref cs s = Some (a, nm, deps)"
    by (cases "deref cs s") auto
  from Cons.prems have "\<forall>s\<in>set items. deref cs s \<noteq> None" by simp
  from Cons.IH [OF this, of "Map_set result nm a"]
  obtain result' where run: "get_dependencies_items cs False items (Map_set result nm a) = Some (Inr result')"
    and get: "Map_get result' = Map_get (Map_set result nm a) ++ map_of (rev (pairs_of cs items))"
    by blast
  have "get_dependencies_items cs False (s # items) result = Some (Inr result')"
    by (subst get_dependencies_items.simps) (simp add: s run)
  moreover have "Map_get (Map_set result nm a) = (Map_get result)(nm \<mapsto> a)"
    by (rule ext) (simp add: Map_get_set)
  then have "Map_get result' = Map_get result ++ map_of (rev (pairs_of cs (s # items)))"
    by (simp add: get pairs_of_def s)
  ultimately show ?case by blast
qed

text \<open>
  C10.  With \<open>recursive = false\<close> the call returns on every graph (nothing is followed, so
  self-loops and cycles do not matter), the accumulator then maps the name of every listed
  cell to that cell, and entries under other names are as before.  The list is resolved
  (every slot points to a cell that has a name) and, as in the data model, no two listed
  cells share a name.
\<close>

theorem get_dependencies_nonrecursive:
  assumes "this < length cs"
    and "\<forall>s\<in>set (dependencies (cs ! this)). deref cs s \<noteq> None"
    and "\<forall>p\<in>set (pairs_of cs (dependencies (cs ! this))).
         \<forall>q\<in>set (pairs_of cs (dependencies (cs ! this))). fst p = fst q \<longrightarrow> snd p = snd q"
  shows "\<exists>result'. get_dependencies cs False this result = Some (Inr result')
    \<and> (\<forall>p\<in>set (pairs_of cs (dependencies (cs ! this))). Map_get result' (fst p) = Some (snd p))
    \<and> (\<forall>k. k \<notin> fst ` set (pairs_of cs (dependencies (cs ! this)))
          \<longrightarrow> Map_get result' k = Map_get result k)"
proof -
  let ?ps = "pairs_of cs (dependencies (cs ! this))"
  from get_dependencies_items_flat [OF assms(2), of result]
  obtain result' where run: "get_dependencies_items cs False (dependencies (cs ! this)) result = Some (Inr result')"
    and get: "Map_get result' = Map_get result ++ map_of (rev ?ps)"
    by blast
  have 1: "get_dependencies cs False this result = Some (Inr result')"
    using assms(1) run by (simp add: get_dependencies_def)
  have 2: "Map_get result' (fst p) = Some (snd p)" if p: "p \<in> set ?ps" for p
  proof -
    from p have "fst p \<in> fst ` set (rev ?ps)" by simp
    then obtain v where v: "map_of (rev ?ps) (fst p) = Some v"
      by (metis map_of_eq_None_iff not_Some_eq)
    then have "(fst p, v) \<in> set ?ps"
      by (metis map_of_SomeD set_rev)
    with assms(3) p have "v = snd p" by fastforce
    with v show ?thesis by (simp add: get map_add_def)
  qed
  have 3: "Map_get result' k = Map_get result k" if "k \<notin> fst ` set ?ps" for k
  proof -
    from that have "map_of (rev ?ps) k = None"
      by (simp add: map_of_eq_None_iff)
    then show ?thesis by (simp add: get map_add_def)
  qed
  from 1 2 3 show ?thesis by blast
qed


theorem get_dependencies_nonrecursive_witness:
  "\<exists>result'. get_dependencies loop_cells False 0 [(''Z'', 7)] = Some (Inr result')
    \<and> Map_get result' ''A'' = Some 0 \<and> Map_get result' ''B'' = Some 1
    \<and> Map_get result' ''Z'' = Some 7"
proof -
  have ps: "pairs_of loop_cells (dependencies (loop_cells ! 0)) = [(''A'', 0), (''B'', 1)]"
    by (simp add: loop_cells_def cell_named_def pairs_of_def deref_def)
  have len: "0 < length loop_cells"
    by (simp add: loop_cells_def)
  have r: "\<forall>s\<in>set (dependencies (loop_cells ! 0)). deref loop_cells s \<noteq> None"
    by (simp add: loop_cells_def cell_named_def deref_def)
  have u: "\<forall>p\<in>set (pairs_of loop_cells (dependencies (loop_cells ! 0))).
         \<forall>q\<in>set (pairs_of loop_cells (dependencies (loop_cells ! 0))). fst p = fst q \<longrightarrow> snd p = snd q"
    by (simp add: ps)
  from get_dependencies_nonrecursive [OF len r u, of "[(''Z'', 7)]"]
  obtain result' where run: "get_dependencies loop_cells False 0 [(''Z'', 7)] = Some (Inr result')"
    and a: "\<forall>p\<in>set (pairs_of loop_cells (dependencies (loop_cells ! 0))). Map_get result' (fst p) = Some (snd p)"
    and b: "\<forall>k. k \<notin> fst ` set (pairs_of loop_cells (dependencies (loop_cells ! 0)))
          \<longrightarrow> Map_get result' k = Map_get [(''Z'', 7)] k"
    by blast
  from a have "Map_get result' ''A'' = Some 0" "Map_get result' ''B'' = Some 1"
    by (simp_all add: ps)
  moreover from b have "Map_get result' ''Z'' = Some 7"
    by (simp add: ps Map_get_def)
  ultimately show ?thesis using run by blast
qed

section \<open>Writing a cell out\<close>

text \<open>
  C8.  For a cell that is not materialized and whose source holds the bytes of its range
  (\<open>offset + size\<close> is within the file), \<open>to_gds\<close> appends to the destination exactly the
  \<open>size\<close> bytes of the file that start at \<open>offset\<close>, and reports no error.
\<close>

theorem to_gds_round_trip:
  assumes "source (cells st ! this) = Some s"
    and "s < length (sources st)"
    and "sources st ! s = Some src"
    and "offset (cells st ! this) + size_rc (cells st ! this) \<le> length (file_s src)"
  shows "\<exists>st' diag. to_gds error_logger st this out =
      Inr ((st', out @ take (size_rc (cells st ! this)) (drop (offset (cells st ! this)) (file_s src)),
            NoError), diag)
    \<and> length (take (size_rc (cells st ! this)) (drop (offset (cells st ! this)) (file_s src)))
        = size_rc (cells st ! this)"
  using assms by (simp add: to_gds_def offset_read_def release_def Let_def)

theorem to_gds_round_trip_witness:
  "\<exists>st' diag. to_gds True lazy_store 0 ''xy'' = Inr ((st', ''xycde'', NoError), diag)"
  using to_gds_round_trip [of lazy_store 0 0 "\<lparr>file_s = ''abcdefg'', uses = 1\<rparr>" True "''xy''"]
  by (simp add: lazy_store_def allocate_clear_def)

section \<open>Loading a file that holds a structure\<close>

text \<open>
  Every \<open>BGNSTR\<close> record ends the load: the cell it creates is never constructed, and the
  assignment to its \<open>filename\<close> is undefined.
\<close>

lemma fault_is_undefined: "(e :: fault) = UndefinedBehaviour"
  by (cases e)

lemma read_rawcells_record_BGNSTR:
  "buffer ! 2 = CHR 0x05 \<Longrightarrow> read_rawcells_record fname src ftell buffer S = Inl UndefinedBehaviour"
  by (cases S) (auto simp: read_rawcells_record_def assign_unconstructed_def Let_def
      fault_is_undefined split: sum.splits)

text \<open>
  The teardown's inner loop, entered on a cell with a slot at \<open>i\<close>, never gets past that
  slot: a name is released and found again, released, at the next turn.
\<close>

lemma free_names_pending: "i < length deps \<Longrightarrow> free_names i deps = Inl UndefinedBehaviour"
proof (cases "deps ! i")
  case (Name nm)
  assume i: "i < length deps"
  have "free_names i (deps[i := Freed]) = Inl UndefinedBehaviour"
    using i by (subst free_names.simps) simp
  with i Name show ?thesis by (subst free_names.simps) simp
qed (subst free_names.simps, simp)+

lemma teardown_items_pending:
  "dependencies (cells st ! snd item) \<noteq> [] \<Longrightarrow>
    teardown_items (item # items) st = Inl UndefinedBehaviour"
  by (simp add: free_names_pending)

section \<open>The teardown of a failed load\<close>

text \<open>
  C5.  The claim: when the scan ends before \<open>ENDLIB\<close>, the loader tears the map down,
  reports \<open>InvalidFile\<close> and returns an empty map, for every partially built state, cells
  with dependencies included.  On a file that ends after a structure has named a
  dependency no map is returned and nothing is reported: the load is undefined from the
  structure's \<open>BGNSTR\<close> on (\<open>read_rawcells_record_BGNSTR\<close>), and the teardown that the failed
  read leads to does not advance in its inner loop, so that on a cell with a dependency it
  releases the same name a second time and cannot leave the loop (\<open>teardown_items_pending\<close>).
\<close>

theorem read_rawcells_teardown_fails:
  "read_rawcells error_logger (on_disk truncated_file) empty_store ''f.gds'' error_code
    = Inl UndefinedBehaviour"
  by (simp add: on_disk_def truncated_file_def gds_bytes empty_store_def load_defs)

section \<open>The load of a well-formed file\<close>

text \<open>
  C6.  The claim: for a well-formed file \<open>read_rawcells\<close> returns a map with one cell per
  structure, and every resolved dependency slot points to a cell of that map.  On a
  well-formed file of two structures, \<open>B\<close> and \<open>TOP\<close> that refers to \<open>B\<close>, no map is returned:
  at the first \<open>BGNSTR\<close> the loader assigns to the \<open>filename\<close> of a cell whose storage was
  only zeroed, which is undefined.
\<close>

theorem read_rawcells_well_formed_file_fails:
  "read_rawcells error_logger (on_disk nested_file) empty_store ''f.gds'' error_code
    = Inl UndefinedBehaviour"
  by (simp add: on_disk_def nested_file_def gds_bytes empty_store_def load_defs)

text \<open>
  C7.  The claim: when a file refers to a structure name that it does not hold, the load still
  returns the map, reports \<open>MissingReference\<close> and drops the slot of that name.  On a file
  whose only structure \<open>TOP\<close> refers to an absent \<open>C\<close>, no map is returned and nothing is
  reported: the load is undefined at the \<open>BGNSTR\<close> of \<open>TOP\<close>, before the reference is read.
\<close>

theorem read_rawcells_missing_reference_fails:
  "read_rawcells error_logger (on_disk dangling_file) empty_store ''f.gds'' (Some NoError)
    = Inl UndefinedBehaviour"
  by (simp add: on_disk_def dangling_file_def gds_bytes empty_store_def load_defs)
section \<open>Polygon extraction on concrete files\<close>

text \<open>
  C2.  The claim: after the end record of the target structure is passed, boundaries of
  unrelated structures later in the stream add no triples.  \<open>target_cell_found\<close> is never
  reset, so they do: extracting \<open>A\<close> from a file where the unrelated \<open>B\<close> follows it also
  gives the points of \<open>B\<close>, under polygon id 1.
\<close>

theorem get_polygons_runs_past_target:
  "get_polygons fuel fp error_logger (on_disk two_cells_file) [cell_in ''f.gds'' ''A'' []] 0 0
      unit tolerance (0, error_code, []) []
   = Some (Inr ((2, error_code,
        [(fp_scale fp (fp_one fp) 0, fp_scale fp (fp_one fp) 0, 0),
         (fp_scale fp (fp_one fp) 10, fp_scale fp (fp_one fp) 10, 0),
         (fp_scale fp (fp_one fp) 0, fp_scale fp (fp_one fp) 0, 0),
         (fp_scale fp (fp_one fp) 20, fp_scale fp (fp_one fp) 20, 1),
         (fp_scale fp (fp_one fp) 30, fp_scale fp (fp_one fp) 30, 1),
         (fp_scale fp (fp_one fp) 20, fp_scale fp (fp_one fp) 20, 1)]), []))"
  by (simp add: on_disk_def two_cells_file_def cell_in_def cell_named_def gds_bytes scan_defs)

text \<open>
  C3.  The claim: a boundary of \<open>N\<close> coordinate pairs gives \<open>N\<close> triples.  The loop over
  the coordinate words advances by four words, two pairs, so it gives every other pair:
  three triples for the five pairs of a closed square.
\<close>

theorem get_polygons_every_other_pair:
  "get_polygons fuel fp error_logger (on_disk square_file) [cell_in ''f.gds'' ''A'' []] 0 depth
      unit tolerance (0, error_code, []) []
   = Some (Inr ((1, error_code,
        [(fp_scale fp (fp_one fp) 0, fp_scale fp (fp_one fp) 0, 0),
         (fp_scale fp (fp_one fp) 10, fp_scale fp (fp_one fp) 10, 0),
         (fp_scale fp (fp_one fp) 0, fp_scale fp (fp_one fp) 0, 0)]), []))"
  by (simp add: on_disk_def square_file_def cell_in_def cell_named_def gds_bytes scan_defs)

lemma nested_deps: "get_dependencies nested_cells True (Suc 0) [] = Some (Inr [(''B'', 0)])"
  apply (simp add: get_dependencies_def nested_cells_def cell_in_def cell_named_def)
  apply (subst get_dependencies_items.simps)
  apply (simp add: deref_def Map_get_def)
  apply (subst get_dependencies_items.simps)
  apply simp
  apply (subst get_dependencies_items.simps)
  apply (simp add: Map_set_def)
  done

lemma nested_top:
  "length nested_cells = 2" "filename (nested_cells ! Suc 0) = ''f.gds''"
  "name (nested_cells ! Suc 0) = Some ''TOP''"
  by (simp_all add: nested_cells_def cell_in_def cell_named_def)

text \<open>
  C4.  The claim: depth 0 expands no reference, depth \<open>-1\<close> expands every reachable
  structure, and each expansion passes the depth decremented by one.  At an \<open>SREF\<close> record
  the code looks up the C string at \<open>buffer + 4\<close>; the record has no payload, the name
  comes in the \<open>SNAME\<close> record after it, so the key is what an earlier record left there
  (here the \<open>STRNAME\<close> of \<open>TOP\<close>).  With depth \<open>-1\<close> the placed structure \<open>B\<close> is not
  expanded: no triple comes out.
\<close>

theorem get_polygons_unlimited_depth_expands_nothing:
  "get_polygons fuel fp error_logger (on_disk nested_file) nested_cells 1 (- 1)
      unit tolerance (0, error_code, []) []
   = Some (Inr ((0, error_code, []), []))"
  by (simp add: nested_deps nested_top on_disk_def nested_file_def gds_bytes scan_defs Map_get_def)

section \<open>The diagnostic sink\<close>

lemma unlogged_simps [simp]:
  "unlogged (Inl e) = Inl e"
  "unlogged (Inr (x, d)) = Inr x"
  by (simp_all add: unlogged_def)

lemma silent_simps [simp]:
  "silent None = None"
  "silent (Some r) = Some (unlogged r)"
  by (simp_all add: silent_def)














end
